theory Spec2Isabelle
  imports Main "HOL-Library.Sublist" "HOL-Library.Char_ord" "HOL-Library.List_Lexorder"
begin

section \<open>The world the two scripts run in\<close>

text \<open>
  Both scripts (\<^verbatim>\<open>app_hf.py\<close> and \<^verbatim>\<open>test_hf_deploy.py\<close>) only touch the process
  environment, the file system and standard output. The model passes these around as
  one record.

  \<^item> A path is the list of its components below a base directory: the root \<^verbatim>\<open>/\<close> for the
    absolute paths of \<^verbatim>\<open>app_hf.py\<close>, the invocation directory for the relative paths of
    \<^verbatim>\<open>test_hf_deploy.py\<close>. The base directory itself is the empty list and always exists.
  \<^item> The file system is a finite table from paths to nodes; a node is a directory or a
    regular file with its bytes. Symbolic links, permissions bits and time stamps are not
    modelled.
  \<^item> A Python \<^verbatim>\<open>str\<close> is represented by its UTF-8 encoding, so a \<open>string\<close> of the model
    is a byte string. The platform is POSIX with UTF-8 as the locale encoding.
  \<^item> \<open>refuses\<close> says for which paths the operating system refuses to create, remove or
    write the entry (read-only mount, missing permission). An operation checks it for
    the entry it targets and fails without changing anything.
  \<^item> \<open>out\<close> is what has been printed, one message per \<^verbatim>\<open>print\<close> call.
\<close>

type_synonym path = "string list"

datatype node = Dir | File string

datatype exn =
    FileNotFoundError path
  | FileExistsError path
  | NotADirectoryError path
  | IsADirectoryError path
  | PermissionError path
  | SameFileError path
  | UnicodeDecodeError path

datatype msg =
    Generated_JWT_secret
  | Checking_required_files
  | Found string
  | Missing_files "string list"
  | All_required_files_found
  | Simulating_workflow
  | Copying_openhands_folder
  | Copying_app_files
  | Copying_requirements
  | Copying_Dockerfile
  | Creating_README
  | Copying_environment_template
  | Files_prepared_in path
  | Staged_file path nat
  | Simulation_completed path
  | Error_during_simulation exn
  | Checking_token
  | Token_not_found
  | Token_hint
  | Token_found
  | Testing_setup
  | File_preparation_failed
  | Workflow_simulation_failed
  | All_tests_passed
  | Next_steps
  | Next_step nat

record world =
  fs :: "(path \<times> node) list"
  environ :: "string \<Rightarrow> string option"
  refuses :: "path \<Rightarrow> bool"
  out :: "msg list"

text \<open>
  A statement that may raise returns the exception (\<open>Inl\<close>) or its value (\<open>Inr\<close>),
  together with the world it leaves behind.
\<close>

type_synonym 'a io = "world \<Rightarrow> (exn + 'a) \<times> world"

definition return :: "'a \<Rightarrow> 'a io" where
  "return x w = (Inr x, w)"

definition raise :: "exn \<Rightarrow> 'a io" where
  "raise e w = (Inl e, w)"

definition io_bind :: "'a io \<Rightarrow> ('a \<Rightarrow> 'b io) \<Rightarrow> 'b io" where
  "io_bind m f w = (case m w of (Inl e, w') \<Rightarrow> (Inl e, w') | (Inr x, w') \<Rightarrow> f x w')"

definition io_seq :: "unit io \<Rightarrow> 'b io \<Rightarrow> 'b io" where
  "io_seq m n = io_bind m (\<lambda>_. n)"

definition try_except :: "'a io \<Rightarrow> (exn \<Rightarrow> 'a io) \<Rightarrow> 'a io" where
  "try_except m h w = (case m w of (Inl e, w') \<Rightarrow> h e w' | (Inr x, w') \<Rightarrow> (Inr x, w'))"

definition print :: "msg \<Rightarrow> unit io" where
  "print m w = (Inr (), w\<lparr>out := out w @ [m]\<rparr>)"

text \<open>A block of statements runs them in order and stops at the first exception.\<close>

primrec block :: "unit io list \<Rightarrow> unit io" where
  "block [] = return ()"
| "block (s # ss) = io_seq s (block ss)"

subsection \<open>Paths\<close>

text \<open>
  \<open>parts\<close> resolves a path written in the source: it splits at \<^verbatim>\<open>/\<close> and drops the empty
  and the \<^verbatim>\<open>.\<close> components. (No path of the scripts contains \<^verbatim>\<open>..\<close>.)
\<close>

fun split_slash :: "string \<Rightarrow> string list" where
  "split_slash [] = [[]]"
| "split_slash (c # cs) =
     (if c = CHR ''/'' then [] # split_slash cs
      else (case split_slash cs of [] \<Rightarrow> [[c]] | p # ps \<Rightarrow> (c # p) # ps))"

definition parts :: "string \<Rightarrow> path" where
  "parts s = filter (\<lambda>c. c \<noteq> [] \<and> c \<noteq> ''.'') (split_slash s)"

definition trailing_slash :: "string \<Rightarrow> bool" where
  "trailing_slash s = (s \<noteq> [] \<and> last s = CHR ''/'')"

definition node_at :: "world \<Rightarrow> path \<Rightarrow> node option" where
  "node_at w p = (if p = [] then Some Dir else map_of (fs w) p)"

text \<open>
  \<^verbatim>\<open>os.path.exists\<close>: a path written with a trailing slash only resolves to a directory.
\<close>

definition os_path_exists :: "world \<Rightarrow> string \<Rightarrow> bool" where
  "os_path_exists w s =
     (case node_at w (parts s) of
        None \<Rightarrow> False
      | Some Dir \<Rightarrow> True
      | Some (File c) \<Rightarrow> \<not> trailing_slash s)"

definition isdir :: "world \<Rightarrow> path \<Rightarrow> bool" where
  "isdir w p = (node_at w p = Some Dir)"

subsection \<open>Directories\<close>

text \<open>\<^verbatim>\<open>os.mkdir\<close> (and \<^verbatim>\<open>Path.mkdir\<close> without arguments).\<close>

definition mkdir :: "path \<Rightarrow> unit io" where
  "mkdir p w =
     (case node_at w p of
        Some n \<Rightarrow> raise (FileExistsError p) w
      | None \<Rightarrow>
          (case node_at w (butlast p) of
             None \<Rightarrow> raise (FileNotFoundError p) w
           | Some (File c) \<Rightarrow> raise (NotADirectoryError p) w
           | Some Dir \<Rightarrow>
               if refuses w p then raise (PermissionError p) w
               else (Inr (), w\<lparr>fs := (p, Dir) # fs w\<rparr>)))"

text \<open>
  \<^verbatim>\<open>os.makedirs(name, exist_ok=...)\<close>, on the reversed component list so that the
  recursion on the parent is structural (the mode argument is not modelled):
  \<^verbatim>\<open>
    head, tail = path.split(name)
    if head and tail and not path.exists(head):
        try: makedirs(head, exist_ok=exist_ok)
        except FileExistsError: pass
    try: mkdir(name, mode)
    except OSError:
        if not exist_ok or not path.isdir(name): raise
  \<close>
\<close>

fun makedirs_rev :: "bool \<Rightarrow> path \<Rightarrow> unit io" where
  "makedirs_rev exist_ok [] w = (Inr (), w)"
| "makedirs_rev exist_ok (c # rp) w =
     (case (if rp \<noteq> [] \<and> node_at w (rev rp) = None
            then try_except (makedirs_rev exist_ok rp)
                   (\<lambda>e. case e of FileExistsError q \<Rightarrow> return () | _ \<Rightarrow> raise e) w
            else (Inr (), w)) of
        (Inl e, w') \<Rightarrow> (Inl e, w')
      | (Inr u, w') \<Rightarrow>
          try_except (mkdir (rev (c # rp)))
            (\<lambda>e w''. if \<not> exist_ok \<or> \<not> isdir w'' (rev (c # rp)) then (Inl e, w'') else (Inr (), w'')) w')"

declare makedirs_rev.simps(2) [simp del]

definition makedirs :: "path \<Rightarrow> bool \<Rightarrow> unit io" where
  "makedirs name exist_ok = makedirs_rev exist_ok (rev name)"

section \<open>app\_hf.py: the environment provisioner\<close>

text \<open>\<^verbatim>\<open>os.environ.setdefault(key, value)\<close>, \<^verbatim>\<open>os.environ[key] = value\<close> and \<^verbatim>\<open>os.getenv(key)\<close>.\<close>

definition setdefault_env :: "string \<Rightarrow> string \<Rightarrow> (string \<Rightarrow> string option) \<Rightarrow> string \<Rightarrow> string option" where
  "setdefault_env k v e = (case e k of None \<Rightarrow> e(k \<mapsto> v) | Some old \<Rightarrow> e)"

definition setdefault :: "string \<Rightarrow> string \<Rightarrow> unit io" where
  "setdefault k v w = (Inr (), environ_update (setdefault_env k v) w)"

definition setenv :: "string \<Rightarrow> string \<Rightarrow> unit io" where
  "setenv k v w = (Inr (), environ_update (\<lambda>e. e(k \<mapsto> v)) w)"

definition getenv :: "world \<Rightarrow> string \<Rightarrow> string option" where
  "getenv w k = environ w k"

text \<open>Python's truth value of \<^verbatim>\<open>os.getenv(key)\<close>: \<^verbatim>\<open>None\<close> and the empty string are false.\<close>

definition truthy :: "string option \<Rightarrow> bool" where
  "truthy v = (case v of None \<Rightarrow> False | Some s \<Rightarrow> s \<noteq> [])"

text \<open>
  \<^verbatim>\<open>setup_hf_environment\<close>. The three local variables of the function hold constants.
  \<open>tok\<close> is the value that \<^verbatim>\<open>secrets.token_urlsafe(32)\<close> returns if it is called: the
  random source is outside the program.
\<close>

definition file_store_path :: string where
  "file_store_path = ''/tmp/openhands''"

definition cache_dir :: string where
  "cache_dir = ''/tmp/cache''"

definition workspace_dir :: string where
  "workspace_dir = ''/tmp/workspace''"

text \<open>The statements of the function body before its \<^verbatim>\<open>return\<close>, in source order.\<close>

definition generate_jwt_secret :: "string \<Rightarrow> unit io" where
  "generate_jwt_secret tok w =
     (if \<not> truthy (getenv w ''JWT_SECRET'')
      then block [setenv ''JWT_SECRET'' tok, print Generated_JWT_secret] w
      else return () w)"

definition setup_statements :: "string \<Rightarrow> unit io list" where
  "setup_statements tok =
     [setdefault ''OPENHANDS_RUNTIME'' ''local'',
      setdefault ''CORS_ALLOWED_ORIGINS'' ''*'',
      setdefault ''SERVE_FRONTEND'' ''false'',
      makedirs (parts file_store_path) True,
      makedirs (parts cache_dir) True,
      setdefault ''FILE_STORE_PATH'' file_store_path,
      setdefault ''CACHE_DIR'' cache_dir,
      generate_jwt_secret tok,
      setdefault ''DISABLE_SECURITY'' ''true'',
      setdefault ''SANDBOX_RUNTIME_CONTAINER_IMAGE'' '''',
      setdefault ''SANDBOX_USER_ID'' ''1000'',
      setdefault ''WORKSPACE_BASE'' ''/tmp/workspace'',
      setdefault ''OPENHANDS_DISABLE_AUTH'' ''true'',
      setdefault ''ENABLE_AUTO_LINT'' ''false'',
      setdefault ''ENABLE_SECURITY_ANALYSIS'' ''false'',
      setdefault ''SETTINGS_STORE_TYPE'' ''memory'',
      setdefault ''SECRETS_STORE_TYPE'' ''memory'',
      setdefault ''DEFAULT_LLM_MODEL'' ''openrouter/anthropic/claude-3-haiku-20240307'',
      setdefault ''DEFAULT_LLM_BASE_URL'' ''https://openrouter.ai/api/v1'',
      setdefault ''SKIP_SETTINGS_MODAL'' ''true'',
      setdefault ''DEFAULT_AGENT'' ''CodeActAgent'',
      setdefault ''DEFAULT_LANGUAGE'' ''en'',
      setdefault ''CONFIRMATION_MODE'' ''false'',
      setdefault ''ENABLE_AUTO_LINT'' ''false'',
      setdefault ''MAX_ITERATIONS'' ''30'',
      setdefault ''MAX_BUDGET_PER_TASK'' ''10.0'',
      makedirs (parts workspace_dir) True]"

definition setup_hf_environment :: "string \<Rightarrow> (string \<times> string) io" where
  "setup_hf_environment tok =
     io_seq (block (setup_statements tok)) (return (file_store_path, cache_dir))"

text \<open>
  The defaulting table of the specification, with the values the code assigns. The
  session secret is not in it: its default is the generated token.
\<close>

definition default_table :: "(string \<times> string) list" where
  "default_table =
     [(''OPENHANDS_RUNTIME'', ''local''),
      (''CORS_ALLOWED_ORIGINS'', ''*''),
      (''SERVE_FRONTEND'', ''false''),
      (''FILE_STORE_PATH'', ''/tmp/openhands''),
      (''CACHE_DIR'', ''/tmp/cache''),
      (''DISABLE_SECURITY'', ''true''),
      (''SANDBOX_RUNTIME_CONTAINER_IMAGE'', ''''),
      (''SANDBOX_USER_ID'', ''1000''),
      (''WORKSPACE_BASE'', ''/tmp/workspace''),
      (''OPENHANDS_DISABLE_AUTH'', ''true''),
      (''ENABLE_AUTO_LINT'', ''false''),
      (''ENABLE_SECURITY_ANALYSIS'', ''false''),
      (''SETTINGS_STORE_TYPE'', ''memory''),
      (''SECRETS_STORE_TYPE'', ''memory''),
      (''DEFAULT_LLM_MODEL'', ''openrouter/anthropic/claude-3-haiku-20240307''),
      (''DEFAULT_LLM_BASE_URL'', ''https://openrouter.ai/api/v1''),
      (''MAX_ITERATIONS'', ''30''),
      (''MAX_BUDGET_PER_TASK'', ''10.0'')]"

section \<open>test\_hf\_deploy.py: the deployment packager\<close>

subsection \<open>File operations of the standard library\<close>

text \<open>\<^verbatim>\<open>os.path.isfile\<close> and \<^verbatim>\<open>Path.is_file\<close>.\<close>

definition isfile :: "world \<Rightarrow> path \<Rightarrow> bool" where
  "isfile w p = (case node_at w p of Some (File c) \<Rightarrow> True | _ \<Rightarrow> False)"

text \<open>
  \<^verbatim>\<open>shutil.rmtree(path)\<close> removes the directory and everything below it. It raises on a
  missing path and on a regular file.
\<close>

definition rmtree :: "path \<Rightarrow> unit io" where
  "rmtree p w =
     (case node_at w p of
        None \<Rightarrow> raise (FileNotFoundError p) w
      | Some (File c) \<Rightarrow> raise (NotADirectoryError p) w
      | Some Dir \<Rightarrow>
          if refuses w p then raise (PermissionError p) w
          else (Inr (), w\<lparr>fs := filter (\<lambda>(q, n). \<not> prefix p q) (fs w)\<rparr>))"

text \<open>
  \<^verbatim>\<open>shutil.copytree(src, dst)\<close>: lists \<^verbatim>\<open>src\<close>, creates \<^verbatim>\<open>dst\<close> with
  \<^verbatim>\<open>os.makedirs(dst, exist_ok=False)\<close>, and copies every entry below \<^verbatim>\<open>src\<close> to the same
  relative place below \<^verbatim>\<open>dst\<close>.
\<close>

definition copy_entries :: "path \<Rightarrow> path \<Rightarrow> (path \<times> node) list \<Rightarrow> (path \<times> node) list" where
  "copy_entries src dst t =
     map (\<lambda>(q, n). (dst @ drop (length src) q, n)) (filter (\<lambda>(q, n). strict_prefix src q) t)"

definition copytree :: "path \<Rightarrow> path \<Rightarrow> unit io" where
  "copytree src dst w =
     (case node_at w src of
        None \<Rightarrow> raise (FileNotFoundError src) w
      | Some (File c) \<Rightarrow> raise (NotADirectoryError src) w
      | Some Dir \<Rightarrow>
          io_seq (makedirs dst False)
            (\<lambda>w'. (Inr (), w'\<lparr>fs := copy_entries src dst (fs w) @ fs w'\<rparr>)) w)"

text \<open>Reading and writing a file in binary mode.\<close>

definition read_bytes :: "path \<Rightarrow> string io" where
  "read_bytes p w =
     (case node_at w p of
        None \<Rightarrow> raise (FileNotFoundError p) w
      | Some Dir \<Rightarrow> raise (IsADirectoryError p) w
      | Some (File c) \<Rightarrow> return c w)"

definition write_bytes :: "path \<Rightarrow> string \<Rightarrow> unit io" where
  "write_bytes p c w =
     (case node_at w p of
        Some Dir \<Rightarrow> raise (IsADirectoryError p) w
      | _ \<Rightarrow>
          (case node_at w (butlast p) of
             None \<Rightarrow> raise (FileNotFoundError p) w
           | Some (File x) \<Rightarrow> raise (NotADirectoryError p) w
           | Some Dir \<Rightarrow>
               if refuses w p then raise (PermissionError p) w
               else (Inr (), w\<lparr>fs := (p, File c) # filter (\<lambda>(q, n). q \<noteq> p) (fs w)\<rparr>)))"

text \<open>
  \<^verbatim>\<open>shutil.copy2(src, dst)\<close>: if \<^verbatim>\<open>dst\<close> is a directory the file goes into it under the base
  name of \<^verbatim>\<open>src\<close>; copying a file onto itself raises; the bytes are copied as they are.
\<close>

definition basename :: "path \<Rightarrow> path" where
  "basename p = (case rev p of [] \<Rightarrow> [] | c # r \<Rightarrow> [c])"

definition copy2 :: "path \<Rightarrow> path \<Rightarrow> unit io" where
  "copy2 src dst w =
     (let target = (if isdir w dst then dst @ basename src else dst)
      in if target = src \<and> node_at w src \<noteq> None then raise (SameFileError src) w
         else io_bind (read_bytes src) (\<lambda>c. write_bytes target c) w)"

text \<open>
  Text mode. \<^verbatim>\<open>open(p, "r").read()\<close> decodes the bytes (UTF-8, strict) and, with the
  default \<^verbatim>\<open>newline=None\<close>, translates every line ending \<^verbatim>\<open>\r\n\<close> or \<^verbatim>\<open>\r\<close> into
  \<^verbatim>\<open>\n\<close>. \<^verbatim>\<open>open(p, "w").write(s)\<close> encodes the text and translates \<^verbatim>\<open>\n\<close> into the
  line separator of the platform, which is \<^verbatim>\<open>\n\<close> itself. Since text is represented by
  its UTF-8 encoding, decoding is a validity check and encoding changes nothing.
\<close>

definition CR :: char where
  "CR = CHR 0x0D"

definition LF :: char where
  "LF = CHR 0x0A"

fun universal_newlines :: "string \<Rightarrow> string" where
  "universal_newlines [] = []"
| "universal_newlines [c] = (if c = CR then [LF] else [c])"
| "universal_newlines (c # d # cs) =
     (if c = CR then
        (if d = LF then LF # universal_newlines cs else LF # universal_newlines (d # cs))
      else c # universal_newlines (d # cs))"

definition continuation :: "char \<Rightarrow> bool" where
  "continuation c = (0x80 \<le> (of_char c :: nat) \<and> (of_char c :: nat) \<le> 0xBF)"

fun utf8_valid :: "string \<Rightarrow> bool" where
  "utf8_valid [] = True"
| "utf8_valid (a # bs) =
     (if (of_char a :: nat) < 0x80 then utf8_valid bs
      else if 0xC2 \<le> (of_char a :: nat) \<and> (of_char a :: nat) \<le> 0xDF then
        (case bs of
           b # r \<Rightarrow> continuation b \<and> utf8_valid r
         | _ \<Rightarrow> False)
      else if 0xE0 \<le> (of_char a :: nat) \<and> (of_char a :: nat) \<le> 0xEF then
        (case bs of
           b # c # r \<Rightarrow>
             continuation b \<and> continuation c
             \<and> (if (of_char a :: nat) = 0xE0 then 0xA0 \<le> (of_char b :: nat) else True)
             \<and> (if (of_char a :: nat) = 0xED then (of_char b :: nat) \<le> 0x9F else True)
             \<and> utf8_valid r
         | _ \<Rightarrow> False)
      else if 0xF0 \<le> (of_char a :: nat) \<and> (of_char a :: nat) \<le> 0xF4 then
        (case bs of
           b # c # d # r \<Rightarrow>
             continuation b \<and> continuation c \<and> continuation d
             \<and> (if (of_char a :: nat) = 0xF0 then 0x90 \<le> (of_char b :: nat) else True)
             \<and> (if (of_char a :: nat) = 0xF4 then (of_char b :: nat) \<le> 0x8F else True)
             \<and> utf8_valid r
         | _ \<Rightarrow> False)
      else False)"

definition read_text :: "path \<Rightarrow> string io" where
  "read_text p =
     io_bind (read_bytes p)
       (\<lambda>c. if utf8_valid c then return (universal_newlines c) else raise (UnicodeDecodeError p))"

definition write_text :: "path \<Rightarrow> string \<Rightarrow> unit io" where
  "write_text p s = write_bytes p s"

text \<open>
  \<^verbatim>\<open>sorted(d.rglob("*"))\<close>: every entry below \<^verbatim>\<open>d\<close>, in the order of the paths (component
  by component). \<^verbatim>\<open>item.stat().st_size\<close> is the number of bytes of a file.
\<close>

definition rglob :: "world \<Rightarrow> path \<Rightarrow> path list" where
  "rglob w d = filter (strict_prefix d) (remdups (map fst (fs w)))"

definition st_size :: "world \<Rightarrow> path \<Rightarrow> nat" where
  "st_size w p = (case node_at w p of Some (File c) \<Rightarrow> length c | _ \<Rightarrow> 0)"

text \<open>\<^verbatim>\<open>Path.__truediv__\<close>: \<^verbatim>\<open>d / name\<close>.\<close>

definition joinpath :: "path \<Rightarrow> string \<Rightarrow> path" where
  "joinpath d name = d @ parts name"

subsection \<open>Stage 1: test\_file\_preparation\<close>

definition required_files :: "string list" where
  "required_files = [''openhands/'', ''app_hf.py'', ''requirements.txt'', ''Dockerfile_HF'', ''README_HF.md'']"

text \<open>
  The loop over \<^verbatim>\<open>required_files\<close>; \<open>missing_files\<close> is the list collected so far, and the
  result is the list at the end of the loop.
\<close>

primrec check_required :: "string list \<Rightarrow> string list \<Rightarrow> (string list) io" where
  "check_required [] missing_files = return missing_files"
| "check_required (file_path # rest) missing_files =
     (\<lambda>w. if \<not> os_path_exists w file_path
          then check_required rest (missing_files @ [file_path]) w
          else io_seq (print (Found file_path)) (check_required rest missing_files) w)"

definition test_file_preparation :: "bool io" where
  "test_file_preparation =
     io_seq (print Checking_required_files)
       (io_bind (check_required required_files [])
          (\<lambda>missing_files.
             if missing_files \<noteq> []
             then io_seq (print (Missing_files missing_files)) (return False)
             else io_seq (print All_required_files_found) (return True)))"

subsection \<open>Stage 2: simulate\_workflow\<close>

definition hf_space_dir :: path where
  "hf_space_dir = parts ''./test_hf_space''"

text \<open>
  The literal that the README starts with. Its third line holds the emoji U+1F916,
  which is four bytes in UTF-8.
\<close>

definition unlines :: "string list \<Rightarrow> string" where
  "unlines ls = concat (map (\<lambda>l. l @ [LF]) ls)"

definition readme_front_matter :: string where
  "readme_front_matter = unlines
     [''---'',
      ''title: OpenHands Backend API'',
      ''emoji: '' @ [CHR 0xF0, CHR 0x9F, CHR 0xA4, CHR 0x96],
      ''colorFrom: blue'',
      ''colorTo: purple'',
      ''sdk: docker'',
      ''pinned: false'',
      ''license: mit'',
      ''app_port: 7860'',
      ''---'',
      '''']"

text \<open>Lines 41 to 44: the scratch directory is removed if it exists, and created.\<close>

definition reset_scratch :: "unit io" where
  "reset_scratch =
     block
       [(\<lambda>w. if node_at w hf_space_dir \<noteq> None then rmtree hf_space_dir w else return () w),
        mkdir hf_space_dir]"

text \<open>The loop that prints every staged file with its size.\<close>

definition list_files :: "path \<Rightarrow> unit io" where
  "list_files d w =
     block
       (map (\<lambda>item w'. if isfile w' item
                        then print (Staged_file (drop (length d) item) (st_size w' item)) w'
                        else return () w')
          (sort (rglob w d))) w"

text \<open>The body of the \<^verbatim>\<open>try\<close> statement, lines 47 to 93.\<close>

definition stage_files :: "bool io" where
  "stage_files =
     io_seq
       (block
          [print Copying_openhands_folder,
           copytree (parts ''./openhands'') (joinpath hf_space_dir ''openhands''),
           print Copying_app_files,
           copy2 (parts ''./app_hf.py'') (joinpath hf_space_dir ''app_hf.py''),
           copy2 (parts ''./app_hf.py'') (joinpath hf_space_dir ''app.py''),
           print Copying_requirements,
           copy2 (parts ''./requirements.txt'') (joinpath hf_space_dir ''requirements.txt''),
           print Copying_Dockerfile,
           copy2 (parts ''./Dockerfile_HF'') (joinpath hf_space_dir ''Dockerfile''),
           print Creating_README,
           io_bind (read_text (parts ''README_HF.md''))
             (\<lambda>text. write_text (joinpath hf_space_dir ''README.md'') (readme_front_matter @ text)),
           (\<lambda>w. if os_path_exists w ''.env.hf''
                then block [print Copying_environment_template,
                            copy2 (parts ''.env.hf'') (joinpath hf_space_dir ''.env'')] w
                else return () w),
           print (Files_prepared_in hf_space_dir),
           list_files hf_space_dir,
           print (Simulation_completed hf_space_dir)])
       (return True)"

definition simulate_workflow :: "bool io" where
  "simulate_workflow =
     io_seq (block [print Simulating_workflow, reset_scratch])
       (try_except stage_files
          (\<lambda>e. io_seq (print (Error_during_simulation e)) (return False)))"

subsection \<open>Stage 3 and the pipeline\<close>

definition check_hf_token :: "bool io" where
  "check_hf_token =
     io_seq (print Checking_token)
       (\<lambda>w. if \<not> truthy (getenv w ''HF_TOKEN'')
            then io_seq (block [print Token_not_found, print Token_hint]) (return False) w
            else io_seq (print Token_found) (return True) w)"

definition main :: "unit io" where
  "main =
     io_seq (print Testing_setup)
       (io_bind test_file_preparation
          (\<lambda>prepared.
             if \<not> prepared then print File_preparation_failed
             else io_bind simulate_workflow
               (\<lambda>staged.
                  if \<not> staged then print Workflow_simulation_failed
                  else io_seq (io_bind check_hf_token (\<lambda>found. return ()))
                         (block [print All_tests_passed, print Next_steps,
                                 print (Next_step 1), print (Next_step 2), print (Next_step 3)]))))"

text \<open>
  A file table is a tree when every entry lies in a directory that exists. Every file
  system is one.
\<close>

definition wf_fs :: "world \<Rightarrow> bool" where
  "wf_fs w = list_all (\<lambda>(p, n). p \<noteq> [] \<and> isdir w (butlast p)) (fs w)"

definition apply_defaults :: "(string \<times> string) list \<Rightarrow> (string \<Rightarrow> string option) \<Rightarrow> string \<Rightarrow> string option" where
  "apply_defaults kvs e = fold (\<lambda>(k, v). setdefault_env k v) kvs e"

definition jwt_step :: "string \<Rightarrow> (string \<Rightarrow> string option) \<Rightarrow> string \<Rightarrow> string option" where
  "jwt_step tok e = (if truthy (e ''JWT_SECRET'') then e else e(''JWT_SECRET'' \<mapsto> tok))"

definition env_effect :: "unit io \<Rightarrow> ((string \<Rightarrow> string option) \<Rightarrow> string \<Rightarrow> string option) \<Rightarrow> bool" where
  "env_effect s f = (\<forall>w w'. s w = (Inr (), w') \<longrightarrow> environ w' = f (environ w))"

definition early_defaults :: "(string \<times> string) list" where
  "early_defaults =
     [(''OPENHANDS_RUNTIME'', ''local''),
      (''CORS_ALLOWED_ORIGINS'', ''*''),
      (''SERVE_FRONTEND'', ''false''),
      (''FILE_STORE_PATH'', ''/tmp/openhands''),
      (''CACHE_DIR'', ''/tmp/cache'')]"

definition late_defaults :: "(string \<times> string) list" where
  "late_defaults =
     [(''DISABLE_SECURITY'', ''true''),
      (''SANDBOX_RUNTIME_CONTAINER_IMAGE'', ''''),
      (''SANDBOX_USER_ID'', ''1000''),
      (''WORKSPACE_BASE'', ''/tmp/workspace''),
      (''OPENHANDS_DISABLE_AUTH'', ''true''),
      (''ENABLE_AUTO_LINT'', ''false''),
      (''ENABLE_SECURITY_ANALYSIS'', ''false''),
      (''SETTINGS_STORE_TYPE'', ''memory''),
      (''SECRETS_STORE_TYPE'', ''memory''),
      (''DEFAULT_LLM_MODEL'', ''openrouter/anthropic/claude-3-haiku-20240307''),
      (''DEFAULT_LLM_BASE_URL'', ''https://openrouter.ai/api/v1''),
      (''SKIP_SETTINGS_MODAL'', ''true''),
      (''DEFAULT_AGENT'', ''CodeActAgent''),
      (''DEFAULT_LANGUAGE'', ''en''),
      (''CONFIRMATION_MODE'', ''false''),
      (''ENABLE_AUTO_LINT'', ''false''),
      (''MAX_ITERATIONS'', ''30''),
      (''MAX_BUDGET_PER_TASK'', ''10.0'')]"

definition sample_token :: string where
  "sample_token = ''pYb1kQ3mN8xZr0Vt5LcWj2Hs7Ge9Ua4DfXoIy6BnMqE''"

definition operator_world :: world where
  "operator_world =
     \<lparr>fs = [],
      environ = [''JWT_SECRET'' \<mapsto> '''', ''FILE_STORE_PATH'' \<mapsto> ''/data/store'', ''CACHE_DIR'' \<mapsto> ''/data/cache''],
      refuses = (\<lambda>p. False),
      out = []\<rparr>"



definition keeps :: "(world \<Rightarrow> bool) \<Rightarrow> unit io \<Rightarrow> bool" where
  "keeps P t = (\<forall>w r w'. P w \<longrightarrow> t w = (r, w') \<longrightarrow> P w')"

lemmas io_defs = return_def raise_def io_bind_def io_seq_def try_except_def print_def

lemma mkdir_frame:
  "mkdir p w = (r, w') \<Longrightarrow> environ w' = environ w \<and> out w' = out w \<and> refuses w' = refuses w"
  by (auto simp: mkdir_def io_defs split: option.splits node.splits if_splits)

lemma makedirs_rev_frame:
  "makedirs_rev ok rp w = (r, w') \<Longrightarrow> environ w' = environ w \<and> out w' = out w \<and> refuses w' = refuses w"
proof (induction rp arbitrary: w r w')
  case Nil
  then show ?case by simp
next
  case (Cons c rp)
  then show ?case
    apply (simp add: makedirs_rev.simps(2) io_defs isdir_def split: prod.splits sum.splits if_splits exn.splits)
    apply (auto dest!: mkdir_frame)
    done
qed

lemma node_at_mkdir:
  "mkdir p w = (r, w') \<Longrightarrow> node_at w q = Some n \<Longrightarrow> node_at w' q = Some n"
  by (auto simp: mkdir_def io_defs node_at_def split: option.splits node.splits if_splits)

lemma mkdir_ok_isdir: "mkdir p w = (Inr u, w') \<Longrightarrow> isdir w' p"
  by (auto simp: mkdir_def io_defs node_at_def isdir_def split: option.splits node.splits if_splits)

lemma node_at_makedirs_rev:
  "makedirs_rev ok rp w = (r, w') \<Longrightarrow> node_at w q = Some n \<Longrightarrow> node_at w' q = Some n"
proof (induction rp arbitrary: w r w')
  case Nil
  then show ?case by simp
next
  case (Cons c rp)
  then show ?case
    apply (simp add: makedirs_rev.simps(2) io_defs isdir_def split: prod.splits sum.splits if_splits exn.splits)
    apply (auto dest: node_at_mkdir)
    done
qed

lemma mkdir_FileExists:
  "mkdir p w = (Inl (FileExistsError q), w') \<Longrightarrow> node_at w' p \<noteq> None"
  by (auto simp: mkdir_def io_defs split: option.splits node.splits if_splits)

lemma mkdir_ok_parent: "mkdir p w = (Inr u, w') \<Longrightarrow> node_at w' (butlast p) \<noteq> None"
  by (auto simp: mkdir_def io_defs node_at_def split: option.splits node.splits if_splits)

lemma makedirs_rev_FileExists:
  "makedirs_rev ok (c # rp) w = (Inl (FileExistsError q), w') \<Longrightarrow> node_at w' (rev (c # rp)) \<noteq> None"
  apply (simp add: makedirs_rev.simps(2) io_defs isdir_def split: prod.splits sum.splits if_splits exn.splits)
  apply (auto dest: mkdir_FileExists)
  done

lemma makedirs_rev_ok_isdir:
  "makedirs_rev ok (c # rp) w = (Inr u, w') \<Longrightarrow> isdir w' (rev (c # rp))"
  apply (simp add: makedirs_rev.simps(2) io_defs split: prod.splits sum.splits if_splits exn.splits)
  apply (auto dest: mkdir_ok_isdir)
  done

lemma makedirs_rev_ok_parent:
  assumes run: "makedirs_rev ok (c # rp) w = (Inr u, w')"
  shows "node_at w' (rev rp) \<noteq> None"
proof (cases "rp = []")
  case True
  then show ?thesis by (simp add: node_at_def)
next
  case False
  then obtain c' rp' where rp: "rp = c' # rp'" by (cases rp) auto
  define first where "first = (if rp \<noteq> [] \<and> node_at w (rev rp) = None
            then try_except (makedirs_rev ok rp)
                   (\<lambda>e. case e of FileExistsError q \<Rightarrow> return () | _ \<Rightarrow> raise e) w
            else (Inr (), w))"
  obtain r1 w1 where f: "first = (r1, w1)" by (cases first)
  from run f have r1: "r1 = Inr ()"
    unfolding makedirs_rev.simps(2) first_def[symmetric] by (cases r1) auto
  from run f r1 have step: "try_except (mkdir (rev (c # rp)))
            (\<lambda>e w''. if \<not> ok \<or> \<not> isdir w'' (rev (c # rp)) then (Inl e, w'') else (Inr (), w'')) w1 = (Inr u, w')"
    unfolding makedirs_rev.simps(2) first_def[symmetric] by simp
  have w1: "node_at w1 (rev rp) \<noteq> None"
  proof (cases "node_at w (rev rp) = None")
    case False
    with f show ?thesis by (simp add: first_def split: if_splits)
  next
    case True
    obtain r0 w0 where m: "makedirs_rev ok rp w = (r0, w0)" by (cases "makedirs_rev ok rp w")
    show ?thesis
    proof (cases r0)
      case (Inr x)
      with m f True rp have "w1 = w0" by (simp add: first_def try_except_def)
      moreover from m Inr rp have "isdir w0 (rev rp)" using makedirs_rev_ok_isdir by blast
      ultimately show ?thesis by (simp add: isdir_def)
    next
      case (Inl e)
      with m f r1 True rp obtain q where e: "e = FileExistsError q" and "w1 = w0"
        by (cases e) (auto simp: first_def try_except_def return_def raise_def)
      with m Inl rp show ?thesis using makedirs_rev_FileExists by blast
    qed
  qed
  obtain r2 w2 where mk: "mkdir (rev (c # rp)) w1 = (r2, w2)" by (cases "mkdir (rev (c # rp)) w1")
  show ?thesis
  proof (cases r2)
    case (Inr x)
    with mk step have "w' = w2" by (simp add: try_except_def)
    with mk w1 show ?thesis using node_at_mkdir by fastforce
  next
    case (Inl e)
    with mk step have "w' = w2" by (simp add: try_except_def split: if_splits)
    with mk w1 show ?thesis using node_at_mkdir by fastforce
  qed
qed

lemma makedirs_rev_again:
  "isdir w (rev (c # rp)) \<Longrightarrow> node_at w (rev rp) \<noteq> None \<Longrightarrow> makedirs_rev True (c # rp) w = (Inr (), w)"
  by (auto simp: makedirs_rev.simps(2) io_defs isdir_def mkdir_def split: option.splits)

lemma parts_lits [simp]:
  "parts file_store_path = [''tmp'', ''openhands'']"
  "parts cache_dir = [''tmp'', ''cache'']"
  "parts workspace_dir = [''tmp'', ''workspace'']"
  by (simp_all add: parts_def file_store_path_def cache_dir_def workspace_dir_def)

lemma makedirs_frame:
  "makedirs n ok w = (r, w') \<Longrightarrow> environ w' = environ w \<and> out w' = out w \<and> refuses w' = refuses w"
  unfolding makedirs_def by (rule makedirs_rev_frame)

lemma node_at_makedirs:
  "makedirs n ok w = (r, w') \<Longrightarrow> node_at w q = Some x \<Longrightarrow> node_at w' q = Some x"
  unfolding makedirs_def by (rule node_at_makedirs_rev)

lemma node_at_updates [simp]:
  "node_at (environ_update f w) p = node_at w p"
  "node_at (out_update g w) p = node_at w p"
  by (simp_all add: node_at_def)

lemma env_effect_nil: "env_effect (block []) id"
  by (simp add: env_effect_def return_def)

lemma env_effect_cons:
  "env_effect s f \<Longrightarrow> env_effect (block ss) g \<Longrightarrow> env_effect (block (s # ss)) (g \<circ> f)"
  by (auto simp: env_effect_def io_seq_def io_bind_def split: prod.splits sum.splits)

lemma env_effect_setdefault: "env_effect (setdefault k v) (setdefault_env k v)"
  by (simp add: env_effect_def setdefault_def)

lemma env_effect_makedirs: "env_effect (makedirs n ok) id"
  by (auto simp: env_effect_def dest: makedirs_frame)

lemma env_effect_jwt: "env_effect (generate_jwt_secret tok) (jwt_step tok)"
  by (auto simp: env_effect_def generate_jwt_secret_def jwt_step_def getenv_def setenv_def io_defs)

lemma env_effect_eq: "env_effect s f \<Longrightarrow> f = h \<Longrightarrow> env_effect s h"
  by simp

lemma setup_env_effect:
  "env_effect (block (setup_statements tok))
     (\<lambda>e. apply_defaults late_defaults (jwt_step tok (apply_defaults early_defaults e)))"
  unfolding setup_statements_def
  apply (rule env_effect_eq)
   apply (rule env_effect_cons env_effect_nil env_effect_setdefault env_effect_makedirs env_effect_jwt)+
  apply (simp add: apply_defaults_def early_defaults_def late_defaults_def
      file_store_path_def cache_dir_def fun_eq_iff)
  done

lemma apply_defaults_lookup:
  "apply_defaults kvs e k = (case e k of Some v \<Rightarrow> Some v | None \<Rightarrow> map_of kvs k)"
  unfolding apply_defaults_def
  by (induction kvs arbitrary: e) (auto simp: setdefault_env_def split: option.splits)

lemma setup_block:
  "setup_hf_environment tok w = (Inr r, w') \<Longrightarrow> block (setup_statements tok) w = (Inr (), w')"
  by (auto simp: setup_hf_environment_def io_seq_def io_bind_def return_def split: prod.splits sum.splits)

lemma setup_environ:
  assumes "setup_hf_environment tok w = (Inr r, w')"
  shows "environ w' = apply_defaults late_defaults (jwt_step tok (apply_defaults early_defaults (environ w)))"
  using setup_env_effect[of tok] setup_block[OF assms] by (simp add: env_effect_def)

lemma setup_environ_lookup:
  assumes "setup_hf_environment tok w = (Inr r, w')"
  shows "environ w' k =
     (if k = ''JWT_SECRET'' then (if truthy (environ w k) then environ w k else Some tok)
      else case environ w k of Some v \<Rightarrow> Some v | None \<Rightarrow> map_of (early_defaults @ late_defaults) k)"
proof -
  have jwt_e: "map_of early_defaults ''JWT_SECRET'' = None"
    by (simp add: early_defaults_def)
  have jwt_l: "map_of late_defaults ''JWT_SECRET'' = None"
    by (simp add: late_defaults_def)
  show ?thesis
    unfolding setup_environ[OF assms] apply_defaults_lookup
    using jwt_e jwt_l
    by (auto simp: jwt_step_def apply_defaults_lookup truthy_def map_add_def split: option.splits)
qed

lemma default_table_lookup:
  "\<forall>(k, d) \<in> set default_table. k \<noteq> ''JWT_SECRET'' \<and> map_of (early_defaults @ late_defaults) k = Some d"
  by (simp add: default_table_def early_defaults_def late_defaults_def)

lemma setup_operator_world:
  "fst (setup_hf_environment sample_token operator_world) = Inr (''/tmp/openhands'', ''/tmp/cache'')"
  by code_simp

lemma setup_operator_world_run:
  "setup_hf_environment sample_token operator_world =
     (Inr (''/tmp/openhands'', ''/tmp/cache''), snd (setup_hf_environment sample_token operator_world))"
  using setup_operator_world by (simp add: prod_eq_iff)

text \<open>
  Claim C1, as amended. Whenever \<^verbatim>\<open>setup_hf_environment\<close> returns: every option of the
  defaulting table that the operator left unset holds its documented default, and every
  option of the table that the operator set, to any value, the empty string included,
  holds the operator's value. The session secret \<^verbatim>\<open>JWT_SECRET\<close> is different: it keeps
  the operator's value only if that value is not empty; an unset or empty secret is
  replaced by the generated token.
\<close>

theorem setup_resolves_defaults:
  assumes "setup_hf_environment tok w = (Inr r, w')"
  shows "(\<forall>(k, d) \<in> set default_table.
            environ w' k = Some (case environ w k of None \<Rightarrow> d | Some v \<Rightarrow> v))
       \<and> environ w' ''JWT_SECRET'' =
            Some (case environ w ''JWT_SECRET'' of None \<Rightarrow> tok | Some v \<Rightarrow> if v = [] then tok else v)"
proof
  show "\<forall>(k, d) \<in> set default_table.
            environ w' k = Some (case environ w k of None \<Rightarrow> d | Some v \<Rightarrow> v)"
  proof (clarify)
    fix k d assume "(k, d) \<in> set default_table"
    with default_table_lookup have "k \<noteq> ''JWT_SECRET''" "map_of (early_defaults @ late_defaults) k = Some d"
      by auto
    then show "environ w' k = Some (case environ w k of None \<Rightarrow> d | Some v \<Rightarrow> v)"
      by (simp add: setup_environ_lookup[OF assms] split: option.splits)
  qed
  show "environ w' ''JWT_SECRET'' =
            Some (case environ w ''JWT_SECRET'' of None \<Rightarrow> tok | Some v \<Rightarrow> if v = [] then tok else v)"
    by (simp add: setup_environ_lookup[OF assms] truthy_def split: option.splits)
qed

theorem setup_resolves_defaults_witness:
  "fst (setup_hf_environment sample_token operator_world) = Inr (''/tmp/openhands'', ''/tmp/cache'')
   \<and> environ (snd (setup_hf_environment sample_token operator_world)) ''FILE_STORE_PATH'' = Some ''/data/store''
   \<and> environ (snd (setup_hf_environment sample_token operator_world)) ''MAX_ITERATIONS'' = Some ''30''
   \<and> environ (snd (setup_hf_environment sample_token operator_world)) ''JWT_SECRET'' = Some sample_token"
  using setup_resolves_defaults[OF setup_operator_world_run] setup_operator_world
  by (simp add: default_table_def operator_world_def)

text \<open>
  Claim C1 as stated fails for the session secret: the operator pre-set \<^verbatim>\<open>JWT_SECRET\<close> to
  the empty string, the call returns, and the resolved value is the generated token, not
  the operator's value.
\<close>

theorem empty_secret_is_replaced:
  "environ operator_world ''JWT_SECRET'' = Some ''''
   \<and> fst (setup_hf_environment sample_token operator_world) = Inr (''/tmp/openhands'', ''/tmp/cache'')
   \<and> environ (snd (setup_hf_environment sample_token operator_world)) ''JWT_SECRET'' = Some sample_token
   \<and> sample_token \<noteq> ''''"
  by code_simp




lemma isfile_updates [simp]:
  "isfile (environ_update f w) p = isfile w p"
  "isfile (out_update g w) p = isfile w p"
  by (simp_all add: isfile_def)







lemma block_cons_ok:
  "block (t # ss) w = (Inr (), w') \<Longrightarrow> \<exists>w1. t w = (Inr (), w1) \<and> block ss w1 = (Inr (), w')"
  by (cases "t w") (auto simp: io_seq_def io_bind_def split: sum.splits)

lemma block_keeps:
  "\<forall>t \<in> set ss. keeps P t \<Longrightarrow> P w \<Longrightarrow> block ss w = (Inr (), w') \<Longrightarrow> P w'"
proof (induction ss arbitrary: w)
  case Nil
  then show ?case by (simp add: return_def)
next
  case (Cons a ss)
  from block_cons_ok[OF Cons.prems(3)] obtain w1 where a: "a w = (Inr (), w1)" and r: "block ss w1 = (Inr (), w')"
    by blast
  from Cons.prems(1) have "keeps P a" by simp
  with a Cons.prems(2) have "P w1" unfolding keeps_def by blast
  moreover from Cons.prems(1) have "\<forall>t \<in> set ss. keeps P t" by simp
  ultimately show ?case using Cons.IH r by blast
qed

lemma block_establishes:
  assumes "s \<in> set ss"
    and "\<forall>w w'. s w = (Inr (), w') \<longrightarrow> P w'"
    and "\<forall>t \<in> set ss. keeps P t"
    and "block ss w = (Inr (), w')"
  shows "P w'"
  using assms
proof (induction ss arbitrary: w)
  case Nil
  then show ?case by simp
next
  case (Cons t ss)
  from block_cons_ok[OF Cons.prems(4)] obtain w1 where t: "t w = (Inr (), w1)" and rest: "block ss w1 = (Inr (), w')"
    by blast
  from Cons.prems(3) have keep: "\<forall>t \<in> set ss. keeps P t" by simp
  show ?case
  proof (cases "s = t")
    case True
    with t Cons.prems(2) have "P w1" by blast
    with block_keeps[OF keep _ rest] show ?thesis by blast
  next
    case False
    with Cons.prems(1) have "s \<in> set ss" by simp
    from Cons.IH[OF this Cons.prems(2) keep rest] show ?thesis .
  qed
qed

lemma keeps_setdefault_node: "keeps (\<lambda>w. node_at w q = Some x) (setdefault k v)"
  by (simp add: keeps_def setdefault_def)

lemma keeps_jwt_node: "keeps (\<lambda>w. node_at w q = Some x) (generate_jwt_secret tok)"
  by (auto simp: keeps_def generate_jwt_secret_def setenv_def io_defs split: if_splits)

lemma keeps_makedirs_node: "keeps (\<lambda>w. node_at w q = Some x) (makedirs n ok)"
  unfolding keeps_def using node_at_makedirs by blast

lemma keeps_exists: "(\<And>x. keeps (\<lambda>w. node_at w q = Some x) t) \<Longrightarrow> keeps (\<lambda>w. \<exists>y. node_at w q = Some y) t"
proof -
  assume k: "\<And>x. keeps (\<lambda>w. node_at w q = Some x) t"
  show ?thesis
    unfolding keeps_def
  proof (intro allI impI)
    fix w r w' assume "\<exists>y. node_at w q = Some y" and run: "t w = (r, w')"
    then obtain y where "node_at w q = Some y" by blast
    with k[of y] run have "node_at w' q = Some y" unfolding keeps_def by blast
    then show "\<exists>y. node_at w' q = Some y" by blast
  qed
qed

lemma setup_statements_keep_nodes:
  "\<forall>t \<in> set (setup_statements tok). keeps (\<lambda>w. node_at w q = Some x) t"
  by (simp add: setup_statements_def keeps_setdefault_node keeps_jwt_node keeps_makedirs_node)

lemma setup_statements_keep_exists:
  "\<forall>t \<in> set (setup_statements tok). keeps (\<lambda>w. \<exists>y. node_at w q = Some y) t"
  by (simp add: setup_statements_def keeps_exists keeps_setdefault_node keeps_jwt_node keeps_makedirs_node)

lemma makedirs_ok_isdir:
  "makedirs [a, b] ok w = (Inr (), w') \<Longrightarrow> node_at w' [a, b] = Some Dir"
  using makedirs_rev_ok_isdir[of ok b "[a]" w "()" w'] by (simp add: makedirs_def isdir_def)

lemma makedirs_ok_parent:
  "makedirs [a, b] ok w = (Inr (), w') \<Longrightarrow> node_at w' [a] \<noteq> None"
  using makedirs_rev_ok_parent[of ok b "[a]" w "()" w'] by (simp add: makedirs_def)

lemma setup_statements_makedirs:
  "makedirs (parts file_store_path) True \<in> set (setup_statements tok)"
  "makedirs (parts cache_dir) True \<in> set (setup_statements tok)"
  "makedirs (parts workspace_dir) True \<in> set (setup_statements tok)"
  by (simp_all add: setup_statements_def)

lemma setup_dirs:
  assumes "block (setup_statements tok) w = (Inr (), w')"
  shows "isdir w' [''tmp'', ''openhands'']" "isdir w' [''tmp'', ''cache'']"
    "isdir w' [''tmp'', ''workspace'']" "node_at w' [''tmp''] \<noteq> None"
proof -
  have a: "\<forall>w w'. makedirs (parts file_store_path) True w = (Inr (), w') \<longrightarrow> node_at w' [''tmp'', ''openhands''] = Some Dir"
    using makedirs_ok_isdir[of "''tmp''" "''openhands''" True] by simp
  have b: "\<forall>w w'. makedirs (parts cache_dir) True w = (Inr (), w') \<longrightarrow> node_at w' [''tmp'', ''cache''] = Some Dir"
    using makedirs_ok_isdir[of "''tmp''" "''cache''" True] by simp
  have c: "\<forall>w w'. makedirs (parts workspace_dir) True w = (Inr (), w') \<longrightarrow> node_at w' [''tmp'', ''workspace''] = Some Dir"
    using makedirs_ok_isdir[of "''tmp''" "''workspace''" True] by simp
  have d: "\<forall>w w'. makedirs (parts workspace_dir) True w = (Inr (), w') \<longrightarrow> (\<exists>y. node_at w' [''tmp''] = Some y)"
    using makedirs_ok_parent[of "''tmp''" "''workspace''" True] by simp
  show "isdir w' [''tmp'', ''openhands'']"
    unfolding isdir_def
    by (rule block_establishes[OF setup_statements_makedirs(1) a setup_statements_keep_nodes assms])
  show "isdir w' [''tmp'', ''cache'']"
    unfolding isdir_def
    by (rule block_establishes[OF setup_statements_makedirs(2) b setup_statements_keep_nodes assms])
  show "isdir w' [''tmp'', ''workspace'']"
    unfolding isdir_def
    by (rule block_establishes[OF setup_statements_makedirs(3) c setup_statements_keep_nodes assms])
  have "\<exists>y. node_at w' [''tmp''] = Some y"
    by (rule block_establishes[OF setup_statements_makedirs(3) d setup_statements_keep_exists assms])
  then show "node_at w' [''tmp''] \<noteq> None" by simp
qed



lemma environ_update_id: "f (environ w) = environ w \<Longrightarrow> environ_update f w = w"
  by (cases w) simp

lemma setdefault_noop: "environ w k \<noteq> None \<Longrightarrow> setdefault k v w = (Inr (), w)"
  by (auto simp: setdefault_def setdefault_env_def intro!: environ_update_id)

lemma block_noop: "(\<forall>s \<in> set ss. s w = (Inr (), w)) \<Longrightarrow> block ss w = (Inr (), w)"
  by (induction ss) (auto simp: io_seq_def io_bind_def return_def)

lemma all_defaults_keys:
  "k \<in> fst ` set (early_defaults @ late_defaults) \<Longrightarrow> k \<noteq> ''JWT_SECRET''"
  by (auto simp: early_defaults_def late_defaults_def)

text \<open>
  Claim C2. If a first call of \<^verbatim>\<open>setup_hf_environment\<close> returns, a second call in the
  world it left returns the same pair and changes nothing: no environment variable, no
  directory, no output, whatever token the random source would deliver the second time
  (so no new secret is generated). The token of the first call is not empty:
  \<^verbatim>\<open>secrets.token_urlsafe(32)\<close> returns 43 characters.
\<close>

theorem setup_twice:
  assumes first: "setup_hf_environment tok w = (Inr r, w')" and tok: "tok \<noteq> []"
  shows "setup_hf_environment tok' w' = (Inr r, w')"
proof -
  note blk = setup_block[OF first]
  note dirs = setup_dirs[OF blk]
  have env: "environ w' k \<noteq> None" if "k \<in> fst ` set (early_defaults @ late_defaults)" for k
  proof -
    from that have "map_of (early_defaults @ late_defaults) k \<noteq> None"
      by (simp only: map_of_eq_None_iff not_not)
    then obtain d where "map_of (early_defaults @ late_defaults) k = Some d"
      by blast
    with all_defaults_keys[OF that] show ?thesis
      by (simp add: setup_environ_lookup[OF first] split: option.splits)
  qed
  have jwt: "truthy (environ w' ''JWT_SECRET'')"
    using tok by (simp add: setup_environ_lookup[OF first] truthy_def)
  have mk: "makedirs n True w' = (Inr (), w')"
    if "n = [''tmp'', b]" "isdir w' [''tmp'', b]" for n b
    using that dirs(4) makedirs_rev_again[of w' b "[''tmp'']"] by (simp add: makedirs_def)
  have "\<forall>s \<in> set (setup_statements tok'). s w' = (Inr (), w')"
    unfolding setup_statements_def
    using jwt dirs
    by (simp add: setdefault_noop env early_defaults_def late_defaults_def mk
        generate_jwt_secret_def getenv_def return_def)
  then have "block (setup_statements tok') w' = (Inr (), w')" by (rule block_noop)
  moreover have "r = (file_store_path, cache_dir)"
    using first by (auto simp: setup_hf_environment_def io_seq_def io_bind_def return_def split: prod.splits sum.splits)
  ultimately show ?thesis
    by (simp add: setup_hf_environment_def io_seq_def io_bind_def return_def)
qed

theorem setup_twice_witness:
  "sample_token \<noteq> []
   \<and> setup_hf_environment ''another-token'' (snd (setup_hf_environment sample_token operator_world)) =
       (Inr (''/tmp/openhands'', ''/tmp/cache''), snd (setup_hf_environment sample_token operator_world))"
proof -
  have t: "sample_token \<noteq> []" by (simp add: sample_token_def)
  from setup_twice[OF setup_operator_world_run t, of "''another-token''"] t show ?thesis by simp
qed

end
